theory Spec2Isabelle
  imports Main "HOL-Library.AList"
begin

section \<open>JavaScript values\<close>

text \<open>
  The values that travel through the stream are what \<^verbatim>\<open>JSON.parse\<close> produces. An object is
  an association list in insertion order; a key occurs once. \<open>None\<close> of type
  \<open>json option\<close> stands for \<^verbatim>\<open>undefined\<close>, the result of reading a property that is not
  there. Numbers are restricted to the integers: the only number the merge engine computes
  with is \<^verbatim>\<open>chunk_starting_offset\<close>, an index. A \<open>char\<close> stands for one UTF-16 code unit
  below 256.
\<close>

datatype json =
    JNull
  | JBool bool
  | JNum int
  | JStr string
  | JArr "json list"
  | JObj "(string \<times> json) list"

type_synonym jsobject = "(string \<times> json) list"

text \<open>\<^verbatim>\<open>obj.k\<close> and \<^verbatim>\<open>obj[k]\<close> on an object.\<close>

definition getProp :: "jsobject \<Rightarrow> string \<Rightarrow> json option" where
  "getProp obj k = map_of obj k"

text \<open>\<^verbatim>\<open>Boolean(v)\<close>, the test made by \<^verbatim>\<open>if (v)\<close>, \<^verbatim>\<open>!v\<close> and \<^verbatim>\<open>&&\<close>.\<close>

fun truthy :: "json option \<Rightarrow> bool" where
  "truthy None = False"
| "truthy (Some JNull) = False"
| "truthy (Some (JBool b)) = b"
| "truthy (Some (JNum n)) = (n \<noteq> 0)"
| "truthy (Some (JStr s)) = (s \<noteq> [])"
| "truthy (Some (JArr xs)) = True"
| "truthy (Some (JObj kvs)) = True"

text \<open>\<^verbatim>\<open>v ?? d\<close>: the default replaces \<^verbatim>\<open>undefined\<close> and \<^verbatim>\<open>null\<close> only.\<close>

fun orElse :: "json option \<Rightarrow> json \<Rightarrow> json" where
  "orElse None d = d"
| "orElse (Some JNull) d = d"
| "orElse (Some v) d = v"

text \<open>
  \<^verbatim>\<open>{ ...a, ...b }\<close>: the keys of \<open>a\<close> keep their place, a key of \<open>b\<close> overwrites in place or
  is appended. (An association list is read by the first binding of a key; \<open>clearjunk\<close>
  drops later bindings of the same key and is the identity on a list without repeated keys,
  which is what an object is.)
\<close>

definition spread :: "jsobject \<Rightarrow> jsobject \<Rightarrow> jsobject" where
  "spread a b = fold (\<lambda>(k, v). AList.update k v) (AList.clearjunk b) a"

text \<open>
  The own enumerable properties of a value, which is what a spread copies. Positions typed
  as objects hold objects; a number, a boolean, \<^verbatim>\<open>null\<close> have none. (Strings and arrays in
  such a position, which the declared types exclude, would contribute their indices.)
\<close>

fun asObject :: "json option \<Rightarrow> jsobject" where
  "asObject (Some (JObj kvs)) = kvs"
| "asObject v = []"

text \<open>A property of declared type \<^verbatim>\<open>T[] | undefined\<close>.\<close>

fun arrayOf :: "json option \<Rightarrow> json list option" where
  "arrayOf (Some (JArr xs)) = Some xs"
| "arrayOf v = None"

text \<open>A property of declared type \<^verbatim>\<open>string | undefined\<close>.\<close>

fun stringOf :: "json option \<Rightarrow> string option" where
  "stringOf (Some (JStr s)) = Some s"
| "stringOf v = None"

text \<open>\<^verbatim>\<open>xs.slice(0, end)\<close>: a negative end counts from the back, and both are clamped.\<close>

definition slice0 :: "'a list \<Rightarrow> int \<Rightarrow> 'a list" where
  "slice0 xs e =
     (let len = int (length xs);
          fin = (if e < 0 then max (len + e) 0 else min e len)
      in take (nat fin) xs)"

text \<open>The integer an index argument denotes (\<^verbatim>\<open>chunk_starting_offset\<close> is typed \<^verbatim>\<open>number\<close>).\<close>

fun toInteger :: "json \<Rightarrow> int" where
  "toInteger (JNum n) = n"
| "toInteger v = 0"

text \<open>\<^verbatim>\<open>s.startsWith(p)\<close> and \<^verbatim>\<open>s.slice(n)\<close> for \<open>0 \<le> n\<close>.\<close>

definition startsWith :: "string \<Rightarrow> string \<Rightarrow> bool" where
  "startsWith s p = (take (length p) s = p)"

definition sliceFrom :: "string \<Rightarrow> nat \<Rightarrow> string" where
  "sliceFrom s n = drop n s"

text \<open>\<^verbatim>\<open>s.includes(p)\<close>.\<close>

fun strIncludes :: "string \<Rightarrow> string \<Rightarrow> bool" where
  "strIncludes [] p = (p = [])"
| "strIncludes (c # cs) p = (startsWith (c # cs) p \<or> strIncludes cs p)"

section \<open>Entry merge engine\<close>

subsection \<open>Markdown blocks\<close>

text \<open>
  \<^verbatim>\<open>md.chunks ?? []\<close>; \<^verbatim>\<open>md.chunks?.length\<close> is truthy exactly when this list is not empty.
\<close>

definition chunksOf :: "jsobject \<Rightarrow> json list" where
  "chunksOf md = (case arrayOf (getProp md ''chunks'') of None \<Rightarrow> [] | Some xs \<Rightarrow> xs)"

text \<open>
  \<^verbatim>\<open>mergeMarkdownBlock(existing, incoming)\<close>. The first argument is
  \<^verbatim>\<open>prev?.markdown_block\<close>, which may be \<^verbatim>\<open>undefined\<close>.
\<close>

definition mergeMarkdownBlock :: "json option \<Rightarrow> json option \<Rightarrow> jsobject" where
  "mergeMarkdownBlock existing incoming =
     (if \<not> truthy existing then asObject incoming
      else
        let result = spread (asObject existing) (asObject incoming) in
        case chunksOf (asObject incoming) of
          [] \<Rightarrow> result
        | c # cs \<Rightarrow>
            let offset = orElse (getProp (asObject incoming) ''chunk_starting_offset'') (JNum 0);
                existingChunks = chunksOf (asObject existing)
            in if offset = JNum 0
               then AList.update ''chunks'' (JArr (c # cs)) result
               else AList.update ''chunks''
                      (JArr (slice0 existingChunks (toInteger offset) @ (c # cs))) result)"

subsection \<open>Blocks\<close>

text \<open>
  \<^verbatim>\<open>applyPatch(current, patches, false, false).newDocument\<close> of the library fast-json-patch is
  a parameter of the model: it works on a copy of \<open>current\<close> and either returns the patched
  document or throws (\<open>None\<close>).
\<close>

type_synonym applyPatch = "json \<Rightarrow> json list \<Rightarrow> json option"

text \<open>
  The \<^verbatim>\<open>Map\<close> from \<^verbatim>\<open>intended_usage\<close> to block, in insertion order. \<^verbatim>\<open>blockMap.set\<close> is
  \<open>AList.update\<close>, \<^verbatim>\<open>blockMap.get\<close> is \<open>map_of\<close>.
\<close>

type_synonym blockMap = "(json option \<times> jsobject) list"

text \<open>\<^verbatim>\<open>block.intended_usage\<close>, the key of a block.\<close>

definition intendedUsage :: "jsobject \<Rightarrow> json option" where
  "intendedUsage block = getProp block ''intended_usage''"

text \<open>
  \<^verbatim>\<open>{ ...obj, k: v }\<close> where \<open>v\<close> was read from another object. A property holding
  \<^verbatim>\<open>undefined\<close> reads like a missing one, and is modelled as missing.
\<close>

fun setProp :: "string \<Rightarrow> json option \<Rightarrow> jsobject \<Rightarrow> jsobject" where
  "setProp k (Some v) obj = AList.update k v obj"
| "setProp k None obj = AList.delete k obj"

text \<open>\<^verbatim>\<open>block.diff_block.field\<close>, a string by its declared type.\<close>

definition diffField :: "jsobject \<Rightarrow> string" where
  "diffField diff = (case stringOf (getProp diff ''field'') of Some f \<Rightarrow> f | None \<Rightarrow> ''undefined'')"

text \<open>\<^verbatim>\<open>(block.diff_block.patches ?? []) as Operation[]\<close>.\<close>

definition diffPatches :: "jsobject \<Rightarrow> json list" where
  "diffPatches diff = (case arrayOf (getProp diff ''patches'') of Some ps \<Rightarrow> ps | None \<Rightarrow> [])"

text \<open>\<^verbatim>\<open>block.diff_block.patches?.[0]?.path?.startsWith("/")\<close>.\<close>

definition firstPathIsPointer :: "jsobject \<Rightarrow> bool" where
  "firstPathIsPointer diff =
     (case arrayOf (getProp diff ''patches'') of
        Some (p # ps) \<Rightarrow>
          (case stringOf (getProp (asObject (Some p)) ''path'') of
             Some s \<Rightarrow> startsWith s ''/''
           | None \<Rightarrow> False)
      | _ \<Rightarrow> False)"

text \<open>
  \<^verbatim>\<open>prev?.[field] ?? (... ? {} : "")\<close>: the value the patches are applied to.
\<close>

definition currentValue :: "jsobject option \<Rightarrow> jsobject \<Rightarrow> json" where
  "currentValue prev diff =
     orElse (case prev of None \<Rightarrow> None | Some p \<Rightarrow> getProp p (diffField diff))
            (if firstPathIsPointer diff then JObj [] else JStr [])"

text \<open>The body of the loop over the incoming blocks.\<close>

definition mergeBlock :: "applyPatch \<Rightarrow> blockMap \<Rightarrow> jsobject \<Rightarrow> blockMap" where
  "mergeBlock ap blockMap block =
     (let key = intendedUsage block;
          prev = map_of blockMap key;
          prevObj = (case prev of None \<Rightarrow> [] | Some p \<Rightarrow> p)
      in
      if truthy (getProp block ''markdown_block'') then
        AList.update key
          (AList.update ''markdown_block''
             (JObj (mergeMarkdownBlock (getProp prevObj ''markdown_block'') (getProp block ''markdown_block'')))
             (setProp ''intended_usage'' key prevObj))
          blockMap
      else if truthy (getProp block ''diff_block'') then
        (let diff = asObject (getProp block ''diff_block'');
             field = diffField diff;
             current = currentValue prev diff
         in case ap current (diffPatches diff) of
              Some patched \<Rightarrow>
                AList.update key
                  (AList.update field patched (setProp ''intended_usage'' key prevObj))
                  blockMap
            | None \<Rightarrow> AList.update key (spread prevObj block) blockMap)
      else AList.update key (spread prevObj block) blockMap)"

text \<open>\<^verbatim>\<open>new Map(existing.map(b => [b.intended_usage, b]))\<close>.\<close>

definition blockMapOf :: "jsobject list \<Rightarrow> blockMap" where
  "blockMapOf existing = fold (\<lambda>b m. AList.update (intendedUsage b) b m) existing []"

definition mergeBlocks :: "applyPatch \<Rightarrow> jsobject list \<Rightarrow> jsobject list \<Rightarrow> jsobject list" where
  "mergeBlocks ap existing incoming =
     map snd (fold (\<lambda>block m. mergeBlock ap m block) incoming (blockMapOf existing))"

subsection \<open>Entries\<close>

text \<open>
  A \<^verbatim>\<open>Partial<Entry>\<close>, as \<^verbatim>\<open>mergeEntries\<close> destructures it: the \<^verbatim>\<open>blocks\<close> array (of declared
  type \<^verbatim>\<open>Block[] | undefined\<close>) and the object of all other fields.
\<close>

record entry =
  rest :: jsobject
  blocks :: "jsobject list option"

text \<open>\<^verbatim>\<open>e.blocks ?? []\<close>; \<^verbatim>\<open>e.blocks && e.blocks.length > 0\<close> holds exactly when this list is not empty.\<close>

definition blocksOf :: "entry \<Rightarrow> jsobject list" where
  "blocksOf e = (case blocks e of None \<Rightarrow> [] | Some bs \<Rightarrow> bs)"

definition mergeEntries :: "applyPatch \<Rightarrow> entry \<Rightarrow> entry \<Rightarrow> entry" where
  "mergeEntries ap existing incoming =
     \<lparr> rest = spread (rest existing) (rest incoming),
       blocks = Some (if blocksOf incoming \<noteq> []
                      then mergeBlocks ap (blocksOf existing) (blocksOf incoming)
                      else blocksOf existing) \<rparr>"

subsection \<open>Answer and sources\<close>

text \<open>The text of one markdown payload: \<^verbatim>\<open>answer\<close> if truthy, else the joined chunks.\<close>

definition chunkText :: "json \<Rightarrow> string" where
  "chunkText c = (case c of JStr s \<Rightarrow> s | _ \<Rightarrow> [])"

definition markdownText :: "jsobject \<Rightarrow> string option" where
  "markdownText md =
     (case stringOf (getProp md ''answer'') of
        Some (c # cs) \<Rightarrow> Some (c # cs)
      | _ \<Rightarrow>
        (case arrayOf (getProp md ''chunks'') of
           Some (x # xs) \<Rightarrow> Some (concat (map chunkText (x # xs)))
         | _ \<Rightarrow> None))"

definition isMarkdownBlock :: "jsobject \<Rightarrow> bool" where
  "isMarkdownBlock block =
     ((case stringOf (intendedUsage block) of
         Some u \<Rightarrow> strIncludes u ''markdown'' | None \<Rightarrow> False)
      \<and> truthy (getProp block ''markdown_block''))"

definition isTextBlock :: "jsobject \<Rightarrow> bool" where
  "isTextBlock block =
     (intendedUsage block = Some (JStr ''ask_text'') \<and> truthy (getProp block ''markdown_block''))"

definition blockText :: "jsobject option \<Rightarrow> string option" where
  "blockText found =
     (case found of
        None \<Rightarrow> None
      | Some block \<Rightarrow> markdownText (asObject (getProp block ''markdown_block'')))"

definition extractAnswer :: "entry \<Rightarrow> string" where
  "extractAnswer e =
     (case blocks e of
        None \<Rightarrow> []
      | Some bs \<Rightarrow>
        (case blockText (find isMarkdownBlock bs) of
           Some t \<Rightarrow> t
         | None \<Rightarrow>
           (case blockText (find isTextBlock bs) of
              Some t \<Rightarrow> t
            | None \<Rightarrow> [])))"

definition extractWebResults :: "entry \<Rightarrow> json list" where
  "extractWebResults e =
     (case blocks e of
        None \<Rightarrow> []
      | Some bs \<Rightarrow>
        (case find (\<lambda>block. intendedUsage block = Some (JStr ''web_results'')) bs of
           None \<Rightarrow> []
         | Some webBlock \<Rightarrow>
           (case arrayOf (getProp (asObject (getProp webBlock ''web_result_block'')) ''web_results'') of
              None \<Rightarrow> [] | Some rs \<Rightarrow> rs)))"

record sourceLink =
  title :: "json option"
  url :: "json option"

definition extractSources :: "entry \<Rightarrow> sourceLink list" where
  "extractSources e =
     map (\<lambda>r. \<lparr> title = getProp (asObject (Some r)) ''name'', url = getProp (asObject (Some r)) ''url'' \<rparr>)
       (filter (\<lambda>r. truthy (getProp (asObject (Some r)) ''url'') \<and> truthy (getProp (asObject (Some r)) ''name''))
          (extractWebResults e))"

section \<open>Stream accumulator\<close>

record accumulator =
  acc_entry :: entry
  acc_answer :: string

definition newAccumulator :: accumulator where
  "newAccumulator = \<lparr> acc_entry = \<lparr> rest = [], blocks = Some [] \<rparr>, acc_answer = [] \<rparr>"

record streamUpdate =
  upd_entry :: entry
  upd_answer :: string
  delta :: string
  sources :: "sourceLink list"
  isFinal :: bool

text \<open>\<^verbatim>\<open>update(incoming)\<close>: the update record it returns and the accumulator afterwards.\<close>

definition update :: "applyPatch \<Rightarrow> accumulator \<Rightarrow> entry \<Rightarrow> streamUpdate \<times> accumulator" where
  "update ap acc incoming =
     (let merged = mergeEntries ap (acc_entry acc) incoming;
          answer = extractAnswer merged;
          d = (if startsWith answer (acc_answer acc)
               then sliceFrom answer (length (acc_answer acc)) else answer)
      in (\<lparr> upd_entry = merged,
            upd_answer = answer,
            delta = d,
            sources = extractSources merged,
            isFinal = (truthy (getProp (rest incoming) ''final'')
                       \<or> getProp (rest incoming) ''status'' = Some (JStr ''COMPLETED'')) \<rparr>,
          \<lparr> acc_entry = merged, acc_answer = answer \<rparr>))"

text \<open>A run of updates from a fresh accumulator; the updates are returned in order.\<close>

fun updates :: "applyPatch \<Rightarrow> accumulator \<Rightarrow> entry list \<Rightarrow> streamUpdate list \<times> accumulator" where
  "updates ap acc [] = ([], acc)"
| "updates ap acc (e # es) =
     (let (u, acc') = update ap acc e;
          (us, acc'') = updates ap acc' es
      in (u # us, acc''))"

section \<open>Frame decoder\<close>

text \<open>
  What \<^verbatim>\<open>parseEventStream\<close> can throw: the typed stream error with the two arguments of its
  constructor (the message and the code), or the \<^verbatim>\<open>TypeError\<close> of reading a property of \<^verbatim>\<open>null\<close>.
\<close>

datatype streamError =
    PerplexityStreamError (message: json) (code: "json option")
  | TypeError

text \<open>
  \<^verbatim>\<open>JSON.parse\<close> is a parameter of the model; \<open>None\<close> stands for its \<^verbatim>\<open>SyntaxError\<close>.
\<close>

type_synonym jsonParse = "string \<Rightarrow> json option"

text \<open>\<^verbatim>\<open>s.trim()\<close>: the white space and line terminators among the code units below 256.\<close>

definition isWhiteSpace :: "char \<Rightarrow> bool" where
  "isWhiteSpace c = (c \<in> set [CHR 0x09, CHR 0x0A, CHR 0x0B, CHR 0x0C, CHR 0x0D, CHR '' '', CHR 0xA0])"

definition trim :: "string \<Rightarrow> string" where
  "trim s = rev (dropWhile isWhiteSpace (rev (dropWhile isWhiteSpace s)))"

text \<open>
  One turn of the inner loop, for the payload \<^verbatim>\<open>queue.shift()\<close>: \<^verbatim>\<open>continue\<close>, \<^verbatim>\<open>yield\<close> or
  \<^verbatim>\<open>throw\<close>. Reading \<^verbatim>\<open>status\<close>, \<^verbatim>\<open>text\<close> or \<^verbatim>\<open>error_code\<close> of a parsed value that is not an
  object gives \<^verbatim>\<open>undefined\<close>, except for \<^verbatim>\<open>null\<close>, where it throws.
\<close>

datatype outcome = Skip | Yield json | Throw streamError

definition handlePayload :: "jsonParse \<Rightarrow> string \<Rightarrow> outcome" where
  "handlePayload parse raw =
     (let data = trim raw in
      if data = [] \<or> data = ''[DONE]'' then Skip
      else
        case parse data of
          None \<Rightarrow> Skip
        | Some JNull \<Rightarrow> Throw TypeError
        | Some parsed \<Rightarrow>
            let obj = asObject (Some parsed);
                status = getProp obj ''status''
            in if status = Some (JStr ''failed'') \<or> status = Some (JStr ''FAILED'') then
                 Throw (PerplexityStreamError
                          (orElse (getProp obj ''text'') (JStr ''Perplexity stream failed''))
                          (getProp obj ''error_code''))
               else if truthy (getProp obj ''error_code'') then
                 Throw (PerplexityStreamError
                          (orElse (Some (orElse (getProp obj ''text'')
                                           (orElse (getProp obj ''error_code'') JNull)))
                                  (JStr ''Perplexity stream failed''))
                          (getProp obj ''error_code''))
               else Yield parsed)"

text \<open>
  The inner loop \<^verbatim>\<open>while (queue.length > 0)\<close>: the items it yields, in order, and the error
  it throws, if any.
\<close>

fun drainQueue :: "jsonParse \<Rightarrow> string list \<Rightarrow> json list \<times> streamError option" where
  "drainQueue parse [] = ([], None)"
| "drainQueue parse (d # queue) =
     (case handlePayload parse d of
        Skip \<Rightarrow> drainQueue parse queue
      | Yield v \<Rightarrow> (let (ys, err) = drainQueue parse queue in (v # ys, err))
      | Throw e \<Rightarrow> ([], Some e))"

text \<open>
  The outer loop. The body is given by the chunks read before \<^verbatim>\<open>done\<close>, and a chunk by the
  list of event payloads that feeding it to the parser of eventsource-parser pushes to the
  queue (\<^verbatim>\<open>TextDecoder\<close> and \<^verbatim>\<open>createParser\<close> are libraries). The result is the sequence of
  items the generator yields and how it ends: \<open>None\<close> when it returns, the error when it
  throws. The \<^verbatim>\<open>finally\<close> clause releases the reader in both cases.
\<close>

fun parseEventStream :: "jsonParse \<Rightarrow> string list list \<Rightarrow> json list \<times> streamError option" where
  "parseEventStream parse [] = ([], None)"
| "parseEventStream parse (events # chunks) =
     (case drainQueue parse events of
        (ys, Some e) \<Rightarrow> (ys, Some e)
      | (ys, None) \<Rightarrow> (let (zs, err) = parseEventStream parse chunks in (ys @ zs, err)))"

section \<open>Socket RPC client\<close>

text \<open>
  The class \<^verbatim>\<open>PerplexitySocket\<close> as a state machine. Every error it creates is a plain \<^verbatim>\<open>Error\<close>
  told apart by its message; the constructors stand for the messages
  \<^verbatim>\<open>Socket.IO connection timeout\<close>, \<^verbatim>\<open>Socket.IO connect error: ...\<close>, \<^verbatim>\<open>WebSocket error\<close>,
  \<^verbatim>\<open>WebSocket closed during handshake\<close>, \<^verbatim>\<open>RPC timeout: <event>\<close>, \<^verbatim>\<open>Socket closed\<close>,
  \<^verbatim>\<open>Malformed ACK payload for ack <id>\<close> and the message taken from an error response.
\<close>

datatype socketError =
    ConnectionTimeout
  | ConnectError string
  | WebSocketError
  | ClosedDuringHandshake
  | RpcTimeout string
  | SocketClosed
  | MalformedAck nat
  | RpcError json

text \<open>How a promise was settled; a promise that is not settled is pending.\<close>

datatype settled = Resolved "json option" | Rejected socketError

text \<open>
  A value of the \<^verbatim>\<open>#pendingAcks\<close> map. Its \<^verbatim>\<open>resolve\<close> and \<^verbatim>\<open>reject\<close> belong to the promise of one
  call, and its \<^verbatim>\<open>timer\<close> is a handle; both are identified by the ack id of the call.
\<close>

record pendingCall =
  promise :: nat
  timer :: nat

text \<open>An armed timer of \<^verbatim>\<open>emitWithAck\<close>: the event name its callback mentions, and its delay.\<close>

record ackTimer =
  timerEvent :: string
  timerDelay :: nat

text \<open>
  The state: the variable \<^verbatim>\<open>phase\<close> of the constructor (the handlers of the RPC phase are
  installed when it becomes 2), the frame that joins the namespace, \<^verbatim>\<open>#nextAckId\<close>,
  \<^verbatim>\<open>#pendingAcks\<close> in insertion order, the armed timers of the calls, the settled promises of
  the calls, the \<^verbatim>\<open>#ready\<close> promise, whether the connect timer is armed, the frames given to
  \<^verbatim>\<open>ws.send\<close>, and whether \<^verbatim>\<open>ws.close()\<close> was called.
\<close>

record socket =
  phase :: nat
  joinFrame :: string
  nextAckId :: nat
  pendingAcks :: "(nat \<times> pendingCall) list"
  timers :: "(nat \<times> ackTimer) list"
  promises :: "(nat \<times> settled) list"
  ready :: "settled option"
  connectTimer :: bool
  sent :: "string list"
  closeRequested :: bool

definition CONNECT_TIMEOUT_MS :: nat where
  "CONNECT_TIMEOUT_MS = 10000"

definition RPC_TIMEOUT_MS :: nat where
  "RPC_TIMEOUT_MS = 30000"

text \<open>The constructor. \<^verbatim>\<open>JSON.stringify\<close> is a parameter of the model.\<close>

definition newSocket :: "(json \<Rightarrow> string) \<Rightarrow> json option \<Rightarrow> socket" where
  "newSocket stringify auth =
     \<lparr> phase = 0,
       joinFrame = (case auth of None \<Rightarrow> ''40'' | Some a \<Rightarrow> ''40'' @ stringify a),
       nextAckId = 0,
       pendingAcks = [],
       timers = [],
       promises = [],
       ready = None,
       connectTimer = True,
       sent = [],
       closeRequested = False \<rparr>"

text \<open>\<^verbatim>\<open>resolve\<close> and \<^verbatim>\<open>reject\<close> of a promise: only the first settlement counts.\<close>

definition settle :: "nat \<Rightarrow> settled \<Rightarrow> socket \<Rightarrow> socket" where
  "settle p outcome s =
     (if p \<in> fst ` set (promises s) then s else s\<lparr> promises := promises s @ [(p, outcome)] \<rparr>)"

definition settleReady :: "settled \<Rightarrow> socket \<Rightarrow> socket" where
  "settleReady outcome s = (case ready s of None \<Rightarrow> s\<lparr> ready := Some outcome \<rparr> | Some r \<Rightarrow> s)"

definition clearTimeout :: "nat \<Rightarrow> socket \<Rightarrow> socket" where
  "clearTimeout t s = s\<lparr> timers := AList.delete t (timers s) \<rparr>"

text \<open>The decimal digits of an ack id in a template string, and \<^verbatim>\<open>Number.parseInt(digits, 10)\<close>.\<close>

function showNat :: "nat \<Rightarrow> string" where
  "showNat n = (if n < 10 then [char_of (48 + n)] else showNat (n div 10) @ [char_of (48 + n mod 10)])"
  by pat_completeness auto
termination
  by (relation "measure id") auto

definition isDigit :: "char \<Rightarrow> bool" where
  "isDigit c = (c \<in> set ''0123456789'')"

definition parseInt :: "string \<Rightarrow> nat" where
  "parseInt ds = foldl (\<lambda>n c. 10 * n + (of_char c - 48)) 0 ds"

text \<open>
  \<^verbatim>\<open>data.startsWith("43")\<close> and \<^verbatim>\<open>data.match(/^43(\d+)([\s\S]*)/)\<close>: the digits after the prefix,
  at least one, and all that follows them.
\<close>

definition matchAck :: "string \<Rightarrow> (string \<times> string) option" where
  "matchAck data =
     (if startsWith data ''43'' \<and> takeWhile isDigit (drop 2 data) \<noteq> []
      then Some (takeWhile isDigit (drop 2 data), dropWhile isDigit (drop 2 data))
      else None)"

text \<open>
  \<^verbatim>\<open>emitWithAck(event, data, timeoutMs)\<close>: the ack id, which identifies the promise returned,
  and the state afterwards. (\<^verbatim>\<open>ws.send\<close> is taken to succeed.)
\<close>

definition emitWithAck ::
    "(json \<Rightarrow> string) \<Rightarrow> string \<Rightarrow> json \<Rightarrow> nat option \<Rightarrow> socket \<Rightarrow> nat \<times> socket" where
  "emitWithAck stringify event data timeoutMs s =
     (let ackId = nextAckId s;
          ms = (case timeoutMs of None \<Rightarrow> RPC_TIMEOUT_MS | Some t \<Rightarrow> t)
      in (ackId,
          s\<lparr> nextAckId := ackId + 1,
             timers := AList.update ackId \<lparr> timerEvent = event, timerDelay = ms \<rparr> (timers s),
             pendingAcks := AList.update ackId \<lparr> promise = ackId, timer = ackId \<rparr> (pendingAcks s),
             sent := sent s @ [''42'' @ showNat ackId @ stringify (JArr [JStr event, data])] \<rparr>))"

text \<open>
  The loop shared by \<^verbatim>\<open>close()\<close> and the \<^verbatim>\<open>onclose\<close> handler of the RPC phase, followed by
  \<^verbatim>\<open>this.#pendingAcks.clear()\<close>.
\<close>

definition rejectAllPending :: "socket \<Rightarrow> socket" where
  "rejectAllPending s =
     (fold (\<lambda>(ackId, pending) st. settle (promise pending) (Rejected SocketClosed)
                                     (clearTimeout (timer pending) st))
           (pendingAcks s) s)
     \<lparr> pendingAcks := [] \<rparr>"

text \<open>\<^verbatim>\<open>close()\<close>; an exception of \<^verbatim>\<open>ws.close()\<close> is caught and ignored.\<close>

definition close :: "socket \<Rightarrow> socket" where
  "close s = (rejectAllPending s)\<lparr> closeRequested := True \<rparr>"

text \<open>\<^verbatim>\<open>Array.isArray(payload) ? payload[0] : payload\<close>.\<close>

definition ackResult :: "json option \<Rightarrow> json option" where
  "ackResult payload = (case payload of Some (JArr xs) \<Rightarrow> (case xs of [] \<Rightarrow> None | x # others \<Rightarrow> Some x) | p \<Rightarrow> p)"

text \<open>The \<^verbatim>\<open>onmessage\<close> handler installed by \<^verbatim>\<open>#installRpcHandler\<close>.\<close>

definition rpcMessage :: "jsonParse \<Rightarrow> string \<Rightarrow> socket \<Rightarrow> socket" where
  "rpcMessage parse data s =
     (if data = ''2'' then s\<lparr> sent := sent s @ [''3''] \<rparr>
      else
        case matchAck data of
          None \<Rightarrow> s
        | Some (digits, payloadText) \<Rightarrow>
            let ackId = parseInt digits in
            case map_of (pendingAcks s) ackId of
              None \<Rightarrow> s
            | Some pending \<Rightarrow>
                let s1 = clearTimeout (timer pending) (s\<lparr> pendingAcks := AList.delete ackId (pendingAcks s) \<rparr>)
                in if payloadText \<noteq> [] \<and> parse payloadText = None
                   then settle (promise pending) (Rejected (MalformedAck ackId)) s1
                   else
                     let payload = (if payloadText \<noteq> [] then parse payloadText else None);
                         result = ackResult payload
                     in case result of
                          Some (JObj response) \<Rightarrow>
                            if getProp response ''error'' \<noteq> None
                            then settle (promise pending)
                                   (Rejected (RpcError
                                      (orElse (Some (orElse (Some (orElse (getProp response ''error_message'')
                                                 (orElse (getProp response ''error_code'') JNull)))
                                               (orElse (getProp response ''error'') JNull)))
                                              (JStr ''RPC error'')))) s1
                            else settle (promise pending) (Resolved result) s1
                        | _ \<Rightarrow> settle (promise pending) (Resolved result) s1)"

text \<open>The \<^verbatim>\<open>onmessage\<close> handler of the constructor.\<close>

definition handshakeMessage :: "string \<Rightarrow> socket \<Rightarrow> socket" where
  "handshakeMessage data s =
     (if data = ''2'' then s\<lparr> sent := sent s @ [''3''] \<rparr>
      else if startsWith data ''0{'' \<and> phase s = 0 then s\<lparr> phase := 1, sent := sent s @ [joinFrame s] \<rparr>
      else if startsWith data ''40'' \<and> phase s = 1
        then settleReady (Resolved None) (s\<lparr> connectTimer := False, phase := 2 \<rparr>)
      else if startsWith data ''44''
        then settleReady (Rejected (ConnectError (drop 2 data))) (s\<lparr> connectTimer := False \<rparr>)
      else s)"

text \<open>
  What the environment does to the socket: a frame arrives, the WebSocket reports an error or
  its close, the connect timer fires, the timer of a call fires. A timer that was cleared or
  has fired does not fire.
\<close>

datatype event =
    Message string
  | WsError
  | WsClose
  | ConnectTimerFires
  | AckTimerFires nat

fun step :: "jsonParse \<Rightarrow> event \<Rightarrow> socket \<Rightarrow> socket" where
  "step parse (Message data) s =
     (if phase s = 2 then rpcMessage parse data s else handshakeMessage data s)"
| "step parse WsError s = settleReady (Rejected WebSocketError) (s\<lparr> connectTimer := False \<rparr>)"
| "step parse WsClose s =
     (if phase s = 2 then rejectAllPending s
      else settleReady (Rejected ClosedDuringHandshake) (s\<lparr> connectTimer := False \<rparr>))"
| "step parse ConnectTimerFires s =
     (if connectTimer s then settleReady (Rejected ConnectionTimeout) (s\<lparr> connectTimer := False \<rparr>) else s)"
| "step parse (AckTimerFires ackId) s =
     (case map_of (timers s) ackId of
        None \<Rightarrow> s
      | Some t \<Rightarrow>
          settle ackId (Rejected (RpcTimeout (timerEvent t)))
            (s\<lparr> timers := AList.delete ackId (timers s),
               pendingAcks := AList.delete ackId (pendingAcks s) \<rparr>))"

text \<open>What happens to a socket: the events, and the two methods the client calls.\<close>

datatype action =
    Event event
  | EmitWithAck string json "nat option"
  | Close

fun act :: "jsonParse \<Rightarrow> (json \<Rightarrow> string) \<Rightarrow> action \<Rightarrow> socket \<Rightarrow> socket" where
  "act parse stringify (Event e) s = step parse e s"
| "act parse stringify (EmitWithAck event data timeoutMs) s = snd (emitWithAck stringify event data timeoutMs s)"
| "act parse stringify Close s = close s"

definition run :: "jsonParse \<Rightarrow> (json \<Rightarrow> string) \<Rightarrow> action list \<Rightarrow> socket \<Rightarrow> socket" where
  "run parse stringify trace s = fold (act parse stringify) trace s"

section \<open>Notions used to state the properties\<close>








text \<open>
  A parsed payload that declares a failure, as the decoder tests it: \<^verbatim>\<open>status\<close> is \<^verbatim>\<open>"failed"\<close>
  or \<^verbatim>\<open>"FAILED"\<close>, or \<^verbatim>\<open>error_code\<close> is truthy.
\<close>

definition declaresFailure :: "json \<Rightarrow> bool" where
  "declaresFailure v =
     (getProp (asObject (Some v)) ''status'' = Some (JStr ''failed'')
      \<or> getProp (asObject (Some v)) ''status'' = Some (JStr ''FAILED'')
      \<or> truthy (getProp (asObject (Some v)) ''error_code''))"

text \<open>The turn of the loop for a payload throws.\<close>

definition isThrow :: "outcome \<Rightarrow> bool" where
  "isThrow r = (case r of Throw e \<Rightarrow> True | _ \<Rightarrow> False)"

section \<open>Sample inputs\<close>

text \<open>A patch function that always throws; the blocks of the samples that use it carry no patch.\<close>

definition noPatch :: applyPatch where
  "noPatch current patches = None"

text \<open>An accumulator whose stored answer is \<^verbatim>\<open>"Hello"\<close>, held as one chunk of the text block.\<close>

definition helloAcc :: accumulator where
  "helloAcc =
     \<lparr> acc_entry =
         \<lparr> rest = [],
           blocks = Some [[(''intended_usage'', JStr ''ask_text''),
                           (''markdown_block'', JObj [(''chunks'', JArr [JStr ''Hello''])])]] \<rparr>,
       acc_answer = ''Hello'' \<rparr>"

text \<open>An update that appends the chunk \<^verbatim>\<open>" world"\<close> at offset 1.\<close>

definition worldUpdate :: entry where
  "worldUpdate =
     \<lparr> rest = [],
       blocks = Some [[(''intended_usage'', JStr ''ask_text''),
                       (''markdown_block'',
                        JObj [(''chunks'', JArr [JStr '' world'']),
                              (''chunk_starting_offset'', JNum 1)])]] \<rparr>"

text \<open>An update that replaces the chunks by \<^verbatim>\<open>"Goodbye"\<close>.\<close>

definition goodbyeUpdate :: entry where
  "goodbyeUpdate =
     \<lparr> rest = [],
       blocks = Some [[(''intended_usage'', JStr ''ask_text''),
                       (''markdown_block'', JObj [(''chunks'', JArr [JStr ''Goodbye''])])]] \<rparr>"

text \<open>Three payloads without blocks: flagged final, carrying nothing, and status in lower case.\<close>

definition finalPayload :: entry where
  "finalPayload = \<lparr> rest = [(''final'', JBool True)], blocks = None \<rparr>"

definition plainPayload :: entry where
  "plainPayload = \<lparr> rest = [(''text'', JStr ''more'')], blocks = None \<rparr>"

definition lowercasePayload :: entry where
  "lowercasePayload = \<lparr> rest = [(''status'', JStr ''completed'')], blocks = None \<rparr>"

definition completedPayload :: entry where
  "completedPayload = \<lparr> rest = [(''status'', JStr ''COMPLETED'')], blocks = None \<rparr>"



text \<open>Markdown payloads: three accumulated chunks, one chunk at an offset, no chunk at an offset.\<close>

definition abcMarkdown :: jsobject where
  "abcMarkdown = [(''progress'', JStr ''IN_PROGRESS''), (''chunks'', JArr [JStr ''a'', JStr ''b'', JStr ''c''])]"

definition chunkAt :: "string \<Rightarrow> int \<Rightarrow> jsobject" where
  "chunkAt c n = [(''chunks'', JArr [JStr c]), (''chunk_starting_offset'', JNum n)]"

definition noChunksAt :: "int \<Rightarrow> jsobject" where
  "noChunksAt n = [(''chunks'', JArr []), (''chunk_starting_offset'', JNum n)]"










text \<open>
  \<^verbatim>\<open>JSON.parse\<close> on the payloads of the sample runs. The other payload used, \<^verbatim>\<open>not json\<close>, is
  a syntax error.
\<close>

definition failedJson :: string where
  "failedJson = ''{\"status\":\"failed\",\"text\":\"quota exceeded\",\"error_code\":\"E1\"}''"

definition sampleParse :: jsonParse where
  "sampleParse s =
     (if s = ''{}'' then Some (JObj [])
      else if s = ''{\"text\":\"hi\"}'' then Some (JObj [(''text'', JStr ''hi'')])
      else if s = failedJson then
        Some (JObj [(''status'', JStr ''failed''), (''text'', JStr ''quota exceeded''),
                    (''error_code'', JStr ''E1'')])
      else if s = ''{\"error_code\":\"\"}'' then Some (JObj [(''error_code'', JStr [])])
      else if s = ''null'' then Some JNull
      else None)"

text \<open>
  A stand-in for \<^verbatim>\<open>JSON.stringify\<close> in sample runs (the text of a sent frame plays no role in
  them), and the handshake of a socket without authentication payload.
\<close>

definition sampleStringify :: "json \<Rightarrow> string" where
  "sampleStringify v = ''[]''"

definition handshake :: "action list" where
  "handshake = [Event (Message ''0{\"sid\":\"y\"}''), Event (Message ''40{\"sid\":\"x\"}'')]"

section \<open>Objects\<close>

lemma getProp_update: "getProp (AList.update k v obj) k' = (if k' = k then Some v else getProp obj k')"
  by (simp add: getProp_def update_conv')





lemma fold_update_fresh:
  "distinct (map fst xs) \<Longrightarrow> fst ` set xs \<inter> fst ` set a = {} \<Longrightarrow>
     fold (\<lambda>(k, v). AList.update k v) xs a = a @ xs"
proof (induction xs arbitrary: a)
  case Nil
  show ?case by simp
next
  case (Cons x xs)
  obtain k v where x: "x = (k, v)" by (cases x)
  from Cons.prems x have k: "k \<notin> fst ` set a" by auto
  have upd: "AList.update k v a = a @ [(k, v)]"
    using k by (induction a) auto
  from Cons.prems x have "fst ` set xs \<inter> fst ` set (a @ [(k, v)]) = {}" by auto
  with Cons.IH [of "a @ [(k, v)]"] Cons.prems show ?case
    by (simp add: x upd)
qed

lemma spread_Nil_left: "distinct (map fst b) \<Longrightarrow> spread [] b = b"
  by (simp add: spread_def fold_update_fresh)

section \<open>Markdown chunk splicing\<close>

lemma slice0_nonneg: "0 \<le> n \<Longrightarrow> slice0 xs n = take (nat n) xs"
  by (auto simp: slice0_def Let_def min_def)

text \<open>
  C4 (amended). When a markdown payload that carries at least one chunk is merged over an
  accumulated markdown payload: if its \<^verbatim>\<open>chunk_starting_offset\<close> is absent, null or 0, the chunks
  of the result are the incoming chunks, whatever was accumulated; if the offset is a positive
  number \<open>n\<close>, they are the first \<open>n\<close> accumulated chunks followed by the incoming chunks.
\<close>

theorem markdown_splice:
  assumes "chunksOf incoming \<noteq> []"
  shows "(getProp incoming ''chunk_starting_offset'' \<in> {None, Some JNull, Some (JNum 0)} \<longrightarrow>
           getProp (mergeMarkdownBlock (Some (JObj existing)) (Some (JObj incoming))) ''chunks''
             = Some (JArr (chunksOf incoming)))
       \<and> (\<forall>n > 0. getProp incoming ''chunk_starting_offset'' = Some (JNum n) \<longrightarrow>
           getProp (mergeMarkdownBlock (Some (JObj existing)) (Some (JObj incoming))) ''chunks''
             = Some (JArr (take (nat n) (chunksOf existing) @ chunksOf incoming)))"
  using assms
  by (auto simp: mergeMarkdownBlock_def Let_def getProp_update slice0_nonneg split: list.splits)

text \<open>
  Accumulated \<^verbatim>\<open>["a","b","c"]\<close> with incoming \<^verbatim>\<open>["X"]\<close>: at offset 1 the result is \<^verbatim>\<open>["a","X"]\<close>,
  at offset 0 and without offset it is \<^verbatim>\<open>["X"]\<close>.
\<close>

theorem markdown_splice_witness:
  "chunksOf (chunkAt ''X'' 1) \<noteq> [] \<and> chunksOf abcMarkdown = [JStr ''a'', JStr ''b'', JStr ''c'']
   \<and> getProp (mergeMarkdownBlock (Some (JObj abcMarkdown)) (Some (JObj (chunkAt ''X'' 1)))) ''chunks''
       = Some (JArr [JStr ''a'', JStr ''X''])
   \<and> getProp (mergeMarkdownBlock (Some (JObj abcMarkdown)) (Some (JObj (chunkAt ''X'' 0)))) ''chunks''
       = Some (JArr [JStr ''X''])
   \<and> getProp (mergeMarkdownBlock (Some (JObj abcMarkdown)) (Some (JObj [(''chunks'', JArr [JStr ''X''])]))) ''chunks''
       = Some (JArr [JStr ''X''])"
proof -
  have ne: "chunksOf (chunkAt ''X'' n) \<noteq> []" "chunksOf [(''chunks'', JArr [JStr ''X''])] \<noteq> []" for n
    by (simp_all add: chunksOf_def chunkAt_def getProp_def)
  have abc: "chunksOf abcMarkdown = [JStr ''a'', JStr ''b'', JStr ''c'']"
    by (simp add: chunksOf_def abcMarkdown_def getProp_def)
  have "getProp (mergeMarkdownBlock (Some (JObj abcMarkdown)) (Some (JObj (chunkAt ''X'' 1)))) ''chunks''
       = Some (JArr [JStr ''a'', JStr ''X''])"
    using markdown_splice [OF ne(1), of 1 abcMarkdown, THEN conjunct2] abc
    by (simp add: chunksOf_def chunkAt_def getProp_def)
  moreover have "getProp (mergeMarkdownBlock (Some (JObj abcMarkdown)) (Some (JObj (chunkAt ''X'' 0)))) ''chunks''
       = Some (JArr [JStr ''X''])"
    using markdown_splice [OF ne(1), of 0 abcMarkdown, THEN conjunct1]
    by (simp add: chunksOf_def chunkAt_def getProp_def)
  moreover have "getProp (mergeMarkdownBlock (Some (JObj abcMarkdown)) (Some (JObj [(''chunks'', JArr [JStr ''X''])]))) ''chunks''
       = Some (JArr [JStr ''X''])"
    using markdown_splice [OF ne(2), of abcMarkdown, THEN conjunct1]
    by (simp add: chunksOf_def getProp_def)
  ultimately show ?thesis using ne(1) abc by simp
qed

text \<open>
  The rule as the claim states it fails for an incoming payload whose chunk list is empty:
  with \<^verbatim>\<open>chunks: []\<close> at offset 1 over \<^verbatim>\<open>["a","b","c"]\<close> the rule gives \<^verbatim>\<open>["a"]\<close>, while the merge
  skips the splice and keeps the empty list the spread copied from the incoming payload.
\<close>

theorem markdown_splice_empty_incoming:
  "getProp (noChunksAt 1) ''chunk_starting_offset'' = Some (JNum 1)
   \<and> take (nat 1) (chunksOf abcMarkdown) @ chunksOf (noChunksAt 1) = [JStr ''a'']
   \<and> getProp (mergeMarkdownBlock (Some (JObj abcMarkdown)) (Some (JObj (noChunksAt 1)))) ''chunks''
       = Some (JArr [])"
  by code_simp

section \<open>The keyed block map\<close>
















section \<open>Patch blocks\<close>




section \<open>Replaying updates\<close>























section \<open>The stream accumulator: delta and finality\<close>

lemma updates_Cons:
  "fst (updates ap acc (e # es)) =
     fst (update ap acc e) # fst (updates ap (snd (update ap acc e)) es)"
  by (simp add: split_def Let_def)

lemma update_isFinal:
  "isFinal (fst (update ap acc e)) =
     (truthy (getProp (rest e) ''final'') \<or> getProp (rest e) ''status'' = Some (JStr ''COMPLETED''))"
  by (simp add: update_def Let_def)

text \<open>
  C3. The update record holds the answer extracted from the merged entry, and the accumulator
  stores it. If that answer starts with the answer stored before, the delta is the suffix:
  the previous answer followed by the delta is the new answer. Otherwise the delta is the
  whole new answer. There is no third case.
\<close>

theorem update_delta:
  "upd_answer (fst (update ap acc incoming)) = extractAnswer (mergeEntries ap (acc_entry acc) incoming)
   \<and> acc_answer (snd (update ap acc incoming)) = upd_answer (fst (update ap acc incoming))
   \<and> (startsWith (upd_answer (fst (update ap acc incoming))) (acc_answer acc) \<longrightarrow>
        acc_answer acc @ delta (fst (update ap acc incoming)) = upd_answer (fst (update ap acc incoming)))
   \<and> (\<not> startsWith (upd_answer (fst (update ap acc incoming))) (acc_answer acc) \<longrightarrow>
        delta (fst (update ap acc incoming)) = upd_answer (fst (update ap acc incoming)))"
proof -
  let ?answer = "extractAnswer (mergeEntries ap (acc_entry acc) incoming)"
  have answer: "upd_answer (fst (update ap acc incoming)) = ?answer"
    and stored: "acc_answer (snd (update ap acc incoming)) = ?answer"
    by (simp_all add: update_def Let_def)
  have suffix: "acc_answer acc @ delta (fst (update ap acc incoming)) = ?answer"
    if "startsWith ?answer (acc_answer acc)"
  proof -
    from that have "take (length (acc_answer acc)) ?answer = acc_answer acc"
      by (simp add: startsWith_def)
    moreover have "delta (fst (update ap acc incoming)) = drop (length (acc_answer acc)) ?answer"
      using that by (simp add: update_def Let_def sliceFrom_def)
    ultimately show ?thesis
      by (metis append_take_drop_id)
  qed
  have whole: "delta (fst (update ap acc incoming)) = ?answer"
    if "\<not> startsWith ?answer (acc_answer acc)"
    using that by (simp add: update_def Let_def)
  from answer stored suffix whole show ?thesis by simp
qed

text \<open>
  The two examples of the claim: stored \<^verbatim>\<open>"Hello"\<close> and new answer \<^verbatim>\<open>"Hello world"\<close> give the
  delta \<^verbatim>\<open>" world"\<close>; stored \<^verbatim>\<open>"Hello"\<close> and new answer \<^verbatim>\<open>"Goodbye"\<close> give \<^verbatim>\<open>"Goodbye"\<close>.
\<close>

theorem update_delta_witness:
  "acc_answer helloAcc = ''Hello''
   \<and> upd_answer (fst (update noPatch helloAcc worldUpdate)) = ''Hello world''
   \<and> startsWith ''Hello world'' ''Hello''
   \<and> delta (fst (update noPatch helloAcc worldUpdate)) = '' world''
   \<and> upd_answer (fst (update noPatch helloAcc goodbyeUpdate)) = ''Goodbye''
   \<and> \<not> startsWith ''Goodbye'' ''Hello''
   \<and> delta (fst (update noPatch helloAcc goodbyeUpdate)) = ''Goodbye''"
proof -
  have stored: "acc_answer helloAcc = ''Hello''"
    by (simp add: helloAcc_def)
  have world: "upd_answer (fst (update noPatch helloAcc worldUpdate)) = ''Hello world''"
    by code_simp
  have goodbye: "upd_answer (fst (update noPatch helloAcc goodbyeUpdate)) = ''Goodbye''"
    by code_simp
  have pre: "startsWith ''Hello world'' ''Hello''" and npre: "\<not> startsWith ''Goodbye'' ''Hello''"
    by (simp_all add: startsWith_def)
  have "acc_answer helloAcc @ delta (fst (update noPatch helloAcc worldUpdate)) =
          upd_answer (fst (update noPatch helloAcc worldUpdate))"
    using update_delta [of noPatch helloAcc worldUpdate, THEN conjunct2, THEN conjunct2, THEN conjunct1]
      pre stored world by simp
  then have d1: "delta (fst (update noPatch helloAcc worldUpdate)) = '' world''"
    by (simp add: stored world)
  have "delta (fst (update noPatch helloAcc goodbyeUpdate)) =
          upd_answer (fst (update noPatch helloAcc goodbyeUpdate))"
    using update_delta [of noPatch helloAcc goodbyeUpdate, THEN conjunct2, THEN conjunct2, THEN conjunct2]
      npre stored goodbye by simp
  then have d2: "delta (fst (update noPatch helloAcc goodbyeUpdate)) = ''Goodbye''"
    by (simp add: goodbye)
  from stored world pre d1 goodbye npre d2 show ?thesis by simp
qed

text \<open>
  C10. The finality flag of an update is computed from the incoming payload alone: it is
  true exactly when the payload's \<^verbatim>\<open>final\<close> field is truthy or its \<^verbatim>\<open>status\<close> is the string
  \<^verbatim>\<open>"COMPLETED"\<close>. Neither the accumulator nor the merged entry enters, so over a whole run
  the flags are those of the payloads one by one, whatever came before.
\<close>

theorem isFinal_from_incoming_only:
  "isFinal (fst (update ap acc incoming)) =
     (truthy (getProp (rest incoming) ''final'')
      \<or> getProp (rest incoming) ''status'' = Some (JStr ''COMPLETED''))
   \<and> isFinal (fst (update ap acc incoming)) = isFinal (fst (update ap acc' incoming))
   \<and> map isFinal (fst (updates ap acc payloads)) =
       map (\<lambda>e. truthy (getProp (rest e) ''final'')
                 \<or> getProp (rest e) ''status'' = Some (JStr ''COMPLETED'')) payloads"
proof -
  have run: "map isFinal (fst (updates ap acc payloads)) =
       map (\<lambda>e. truthy (getProp (rest e) ''final'')
                 \<or> getProp (rest e) ''status'' = Some (JStr ''COMPLETED'')) payloads"
  proof (induction payloads arbitrary: acc)
    case Nil
    show ?case by simp
  next
    case (Cons e es)
    then show ?case by (simp only: updates_Cons list.map update_isFinal)
  qed
  then show ?thesis by (simp only: update_isFinal simp_thms)
qed

text \<open>
  A run of four payloads from a fresh accumulator: the one flagged final reports true, the one
  after it false although the merged entry still holds \<^verbatim>\<open>final\<close>, the lower-case
  \<^verbatim>\<open>"completed"\<close> false, and \<^verbatim>\<open>"COMPLETED"\<close> true.
\<close>

theorem isFinal_from_incoming_only_witness:
  "map isFinal (fst (updates noPatch newAccumulator
       [finalPayload, plainPayload, lowercasePayload, completedPayload])) = [True, False, False, True]
   \<and> getProp (rest (acc_entry (snd (updates noPatch newAccumulator [finalPayload, plainPayload]))))
         ''final'' = Some (JBool True)"
proof -
  have "getProp (rest (acc_entry (snd (updates noPatch newAccumulator [finalPayload, plainPayload]))))
         ''final'' = Some (JBool True)"
    by code_simp
  moreover have "map isFinal (fst (updates noPatch newAccumulator
       [finalPayload, plainPayload, lowercasePayload, completedPayload])) = [True, False, False, True]"
    using isFinal_from_incoming_only
      [of noPatch newAccumulator finalPayload newAccumulator
          "[finalPayload, plainPayload, lowercasePayload, completedPayload]"]
    by (simp add: finalPayload_def plainPayload_def lowercasePayload_def completedPayload_def getProp_def)
  ultimately show ?thesis by simp
qed

section \<open>The frame decoder: sentinel and failures\<close>

lemma drainQueue_append:
  "drainQueue parse (xs @ ys) =
     (case drainQueue parse xs of
        (as, Some e) \<Rightarrow> (as, Some e)
      | (as, None) \<Rightarrow> (let (bs, err) = drainQueue parse ys in (as @ bs, err)))"
  by (induction xs) (auto split: outcome.splits prod.splits option.splits)

lemma parseEventStream_concat:
  "parseEventStream parse chunks = drainQueue parse (concat chunks)"
  by (induction chunks) (auto simp: drainQueue_append split: prod.splits option.splits)

lemma drainQueue_skip:
  "handlePayload parse d = Skip \<Longrightarrow> drainQueue parse (pre @ d # post) = drainQueue parse (pre @ post)"
  by (induction pre) (simp_all split: outcome.splits)

text \<open>
  C1 (amended). A payload that equals \<^verbatim>\<open>[DONE]\<close> after trimming is skipped: nothing is yielded
  for it and nothing is thrown. Decoding goes on with the payloads after it, exactly as if
  the sentinel had not been in the queue; the sequence ends when the body ends or a payload
  throws.
\<close>

theorem done_is_skipped:
  assumes "trim d = ''[DONE]''"
  shows "handlePayload parse d = Skip
       \<and> drainQueue parse (pre @ d # post) = drainQueue parse (pre @ post)
       \<and> parseEventStream parse (before @ (pre @ d # post) # after)
           = parseEventStream parse (before @ (pre @ post) # after)"
proof -
  have skip: "handlePayload parse d = Skip"
    using assms by (simp add: handlePayload_def)
  have "drainQueue parse ((concat before @ pre) @ d # (post @ concat after))
        = drainQueue parse ((concat before @ pre) @ (post @ concat after))"
    using skip by (rule drainQueue_skip)
  then have "parseEventStream parse (before @ (pre @ d # post) # after)
           = parseEventStream parse (before @ (pre @ post) # after)"
    by (simp add: parseEventStream_concat)
  with skip drainQueue_skip [OF skip] show ?thesis by simp
qed

text \<open>A payload, then the sentinel with white space around it, then another payload.\<close>

theorem done_is_skipped_witness:
  "trim '' [DONE]  '' = ''[DONE]''
   \<and> handlePayload sampleParse '' [DONE]  '' = Skip
   \<and> parseEventStream sampleParse [[''{\"text\":\"hi\"}'', '' [DONE]  '']] = ([JObj [(''text'', JStr ''hi'')]], None)
   \<and> parseEventStream sampleParse [[''{\"text\":\"hi\"}'', '' [DONE]  '', ''{}'']]
       = parseEventStream sampleParse [[''{\"text\":\"hi\"}'', ''{}'']]"
proof -
  have t: "trim '' [DONE]  '' = ''[DONE]''"
    by code_simp
  have e: "parseEventStream sampleParse [[''{\"text\":\"hi\"}'', '' [DONE]  '']] = ([JObj [(''text'', JStr ''hi'')]], None)"
    by code_simp
  from done_is_skipped [OF t, of sampleParse "[''{\"text\":\"hi\"}'']" "[''{}'']" "[]" "[]"] t e
  show ?thesis by simp
qed

text \<open>
  The claim as stated fails: the payload \<^verbatim>\<open>{}\<close> that arrives after the sentinel is yielded.
\<close>

theorem done_does_not_end_the_sequence:
  "trim ''[DONE]'' = ''[DONE]''
   \<and> parseEventStream sampleParse [[''[DONE]'', ''{}'']] = ([JObj []], None)"
  by code_simp

lemma snd_drainQueue_Cons:
  "snd (drainQueue parse (d # q)) =
     (case handlePayload parse d of Throw e \<Rightarrow> Some e | _ \<Rightarrow> snd (drainQueue parse q))"
  by (simp split: outcome.splits prod.splits)

lemma drainQueue_error_iff:
  "snd (drainQueue parse q) = Some e \<longleftrightarrow>
     (\<exists>pre d post. q = pre @ d # post
        \<and> list_all (\<lambda>x. \<not> isThrow (handlePayload parse x)) pre
        \<and> handlePayload parse d = Throw e)"
proof (induction q)
  case Nil
  show ?case by simp
next
  case (Cons x q)
  show ?case
  proof (cases "isThrow (handlePayload parse x)")
    case True
    then obtain e' where x: "handlePayload parse x = Throw e'"
      by (auto simp: isThrow_def split: outcome.splits)
    have "(\<exists>pre d post. x # q = pre @ d # post
        \<and> list_all (\<lambda>x. \<not> isThrow (handlePayload parse x)) pre
        \<and> handlePayload parse d = Throw e) \<longleftrightarrow> e' = e"
    proof
      assume "\<exists>pre d post. x # q = pre @ d # post
        \<and> list_all (\<lambda>x. \<not> isThrow (handlePayload parse x)) pre
        \<and> handlePayload parse d = Throw e"
      then obtain pre d post where eq: "x # q = pre @ d # post"
        and ok: "list_all (\<lambda>x. \<not> isThrow (handlePayload parse x)) pre"
        and d: "handlePayload parse d = Throw e"
        by blast
      show "e' = e"
      proof (cases pre)
        case Nil
        with eq d x show ?thesis by simp
      next
        case (Cons y ys)
        with eq ok True show ?thesis by simp
      qed
    next
      assume "e' = e"
      with x have "x # q = [] @ x # q \<and> list_all (\<lambda>x. \<not> isThrow (handlePayload parse x)) []
          \<and> handlePayload parse x = Throw e"
        by simp
      then show "\<exists>pre d post. x # q = pre @ d # post
        \<and> list_all (\<lambda>x. \<not> isThrow (handlePayload parse x)) pre
        \<and> handlePayload parse d = Throw e"
        by blast
    qed
    with x show ?thesis by (simp add: snd_drainQueue_Cons)
  next
    case False
    then have step: "snd (drainQueue parse (x # q)) = snd (drainQueue parse q)"
      by (cases "handlePayload parse x") (simp_all add: isThrow_def split: prod.splits)
    have "(\<exists>pre d post. x # q = pre @ d # post
        \<and> list_all (\<lambda>x. \<not> isThrow (handlePayload parse x)) pre
        \<and> handlePayload parse d = Throw e)
      \<longleftrightarrow> (\<exists>pre d post. q = pre @ d # post
        \<and> list_all (\<lambda>x. \<not> isThrow (handlePayload parse x)) pre
        \<and> handlePayload parse d = Throw e)"
    proof
      assume "\<exists>pre d post. x # q = pre @ d # post
        \<and> list_all (\<lambda>x. \<not> isThrow (handlePayload parse x)) pre
        \<and> handlePayload parse d = Throw e"
      then obtain pre d post where eq: "x # q = pre @ d # post"
        and ok: "list_all (\<lambda>x. \<not> isThrow (handlePayload parse x)) pre"
        and d: "handlePayload parse d = Throw e"
        by blast
      show "\<exists>pre d post. q = pre @ d # post
        \<and> list_all (\<lambda>x. \<not> isThrow (handlePayload parse x)) pre
        \<and> handlePayload parse d = Throw e"
      proof (cases pre)
        case Nil
        with eq d False show ?thesis by (simp add: isThrow_def)
      next
        case (Cons y ys)
        with eq ok d have "q = ys @ d # post \<and> list_all (\<lambda>x. \<not> isThrow (handlePayload parse x)) ys
          \<and> handlePayload parse d = Throw e"
          by simp
        then show ?thesis by blast
      qed
    next
      assume "\<exists>pre d post. q = pre @ d # post
        \<and> list_all (\<lambda>x. \<not> isThrow (handlePayload parse x)) pre
        \<and> handlePayload parse d = Throw e"
      then obtain pre d post where "q = pre @ d # post"
        "list_all (\<lambda>x. \<not> isThrow (handlePayload parse x)) pre" "handlePayload parse d = Throw e"
        by blast
      with False have "x # q = (x # pre) @ d # post
        \<and> list_all (\<lambda>x. \<not> isThrow (handlePayload parse x)) (x # pre)
        \<and> handlePayload parse d = Throw e"
        by simp
      then show "\<exists>pre d post. x # q = pre @ d # post
        \<and> list_all (\<lambda>x. \<not> isThrow (handlePayload parse x)) pre
        \<and> handlePayload parse d = Throw e"
        by blast
    qed
    with step Cons.IH show ?thesis by simp
  qed
qed

lemma handlePayload_cases:
  "handlePayload parse raw =
     (if trim raw = [] \<or> trim raw = ''[DONE]'' then Skip
      else case parse (trim raw) of
        None \<Rightarrow> Skip
      | Some v \<Rightarrow>
          if v = JNull then Throw TypeError
          else if getProp (asObject (Some v)) ''status'' = Some (JStr ''failed'')
                  \<or> getProp (asObject (Some v)) ''status'' = Some (JStr ''FAILED'')
          then Throw (PerplexityStreamError
                       (orElse (getProp (asObject (Some v)) ''text'') (JStr ''Perplexity stream failed''))
                       (getProp (asObject (Some v)) ''error_code''))
          else if truthy (getProp (asObject (Some v)) ''error_code'')
          then Throw (PerplexityStreamError
                       (orElse (getProp (asObject (Some v)) ''text'')
                          (orElse (getProp (asObject (Some v)) ''error_code'') JNull))
                       (getProp (asObject (Some v)) ''error_code''))
          else Yield v)"
proof -
  have nn: "orElse (Some (orElse t (orElse ec JNull))) d = orElse t (orElse ec JNull)" if "truthy ec" for t ec d
  proof -
    from that obtain e where ec: "ec = Some e" "e \<noteq> JNull"
      by (cases ec rule: truthy.cases) auto
    then have "orElse ec JNull = e" by (cases e) auto
    moreover have "orElse t e \<noteq> JNull"
    proof (cases t)
      case None
      with ec(2) show ?thesis by simp
    next
      case (Some v)
      with ec(2) show ?thesis by (cases v) simp_all
    qed
    ultimately show ?thesis
      by (cases "orElse t e") auto
  qed
  show ?thesis
    by (auto simp: handlePayload_def Let_def nn split: option.splits json.splits)
qed

text \<open>
  C2 (amended). \<^verbatim>\<open>JSON.parse\<close> rejects the text \<^verbatim>\<open>[DONE]\<close>. Then the turn for a payload throws the
  typed stream error if and only if the trimmed payload is not empty and parses to a value
  that declares a failure: \<^verbatim>\<open>status\<close> is \<^verbatim>\<open>"failed"\<close> or \<^verbatim>\<open>"FAILED"\<close>, or \<^verbatim>\<open>error_code\<close> is truthy. The
  code of the error is the \<^verbatim>\<open>error_code\<close> of the payload, and its message is the \<^verbatim>\<open>text\<close> of the
  payload when that is present and not null. A payload that does not parse is skipped. The
  whole sequence ends with the typed stream error exactly when a payload whose turn throws
  it is reached, that is, no turn before it throws.
\<close>

theorem stream_error_iff:
  assumes "parse ''[DONE]'' = None"
  shows
    "((\<exists>m c. handlePayload parse raw = Throw (PerplexityStreamError m c)) \<longleftrightarrow>
        (trim raw \<noteq> [] \<and> (\<exists>v. parse (trim raw) = Some v \<and> declaresFailure v)))
     \<and> (\<forall>m c. handlePayload parse raw = Throw (PerplexityStreamError m c) \<longrightarrow>
          (\<exists>v. parse (trim raw) = Some v
             \<and> c = getProp (asObject (Some v)) ''error_code''
             \<and> (\<forall>t. getProp (asObject (Some v)) ''text'' = Some t \<and> t \<noteq> JNull \<longrightarrow> m = t)))
     \<and> (parse (trim raw) = None \<longrightarrow> handlePayload parse raw = Skip)
     \<and> (\<forall>m c. snd (parseEventStream parse chunks) = Some (PerplexityStreamError m c) \<longleftrightarrow>
          (\<exists>pre d post. concat chunks = pre @ d # post
              \<and> list_all (\<lambda>x. \<not> isThrow (handlePayload parse x)) pre
              \<and> handlePayload parse d = Throw (PerplexityStreamError m c)))"
proof -
  have some_text: "orElse (Some t) d = t" if "t \<noteq> JNull" for t d
    using that by (cases t) simp_all
  have 1: "(\<exists>m c. handlePayload parse raw = Throw (PerplexityStreamError m c)) \<longleftrightarrow>
        (trim raw \<noteq> [] \<and> (\<exists>v. parse (trim raw) = Some v \<and> declaresFailure v))"
  proof (cases "parse (trim raw)")
    case None
    then show ?thesis by (simp add: handlePayload_cases)
  next
    case (Some v)
    with assms have nd: "trim raw \<noteq> ''[DONE]''" by auto
    show ?thesis
    proof (cases v)
      case JNull
      with Some nd show ?thesis
        by (simp add: handlePayload_cases declaresFailure_def getProp_def)
    qed (use Some nd in \<open>auto simp: handlePayload_cases declaresFailure_def\<close>)
  qed
  have 2: "\<exists>v. parse (trim raw) = Some v
             \<and> c = getProp (asObject (Some v)) ''error_code''
             \<and> (\<forall>t. getProp (asObject (Some v)) ''text'' = Some t \<and> t \<noteq> JNull \<longrightarrow> m = t)"
    if "handlePayload parse raw = Throw (PerplexityStreamError m c)" for m c
    using that
    by (auto simp: handlePayload_cases some_text split: option.splits if_splits)
  have 3: "handlePayload parse raw = Skip" if "parse (trim raw) = None"
    using that by (simp add: handlePayload_cases)
  have 4: "snd (parseEventStream parse chunks) = Some (PerplexityStreamError m c) \<longleftrightarrow>
          (\<exists>pre d post. concat chunks = pre @ d # post
              \<and> list_all (\<lambda>x. \<not> isThrow (handlePayload parse x)) pre
              \<and> handlePayload parse d = Throw (PerplexityStreamError m c))" for m c
    by (simp only: parseEventStream_concat drainQueue_error_iff)
  from 1 2 3 4 show ?thesis by blast
qed

text \<open>
  The payload \<^verbatim>\<open>{status: "failed", text: "quota exceeded", error_code: "E1"}\<close>: the sequence
  ends with the message \<^verbatim>\<open>"quota exceeded"\<close> and the code \<^verbatim>\<open>"E1"\<close>, the payload after it is not
  yielded, and \<^verbatim>\<open>not json\<close> before it was skipped.
\<close>

theorem stream_error_iff_witness:
  "sampleParse ''[DONE]'' = None
   \<and> trim failedJson \<noteq> []
   \<and> sampleParse (trim failedJson)
       = Some (JObj [(''status'', JStr ''failed''), (''text'', JStr ''quota exceeded''),
                     (''error_code'', JStr ''E1'')])
   \<and> handlePayload sampleParse failedJson
       = Throw (PerplexityStreamError (JStr ''quota exceeded'') (Some (JStr ''E1'')))
   \<and> parseEventStream sampleParse [[''{}'', ''not json''], [failedJson, ''{\"text\":\"hi\"}'']]
       = ([JObj []], Some (PerplexityStreamError (JStr ''quota exceeded'') (Some (JStr ''E1''))))
   \<and> sampleParse (trim ''not json'') = None
   \<and> handlePayload sampleParse ''not json'' = Skip"
proof -
  let ?obj = "JObj [(''status'', JStr ''failed''), (''text'', JStr ''quota exceeded''),
                     (''error_code'', JStr ''E1'')]"
  have d: "sampleParse ''[DONE]'' = None"
    by code_simp
  have ne: "trim failedJson \<noteq> []"
    by code_simp
  have p: "sampleParse (trim failedJson) = Some ?obj"
    by code_simp
  have f: "declaresFailure ?obj"
    by (simp add: declaresFailure_def getProp_def)
  have n: "sampleParse (trim ''not json'') = None"
    by code_simp
  note iff = stream_error_iff [where parse = sampleParse, OF d]
  from iff [of failedJson] ne p f
  obtain m c where thrown: "handlePayload sampleParse failedJson = Throw (PerplexityStreamError m c)"
    by blast
  with iff [of failedJson] p
  have "c = getProp (asObject (Some ?obj)) ''error_code''"
    and "\<And>t. getProp (asObject (Some ?obj)) ''text'' = Some t \<and> t \<noteq> JNull \<Longrightarrow> m = t"
    by auto
  then have "c = Some (JStr ''E1'')" and "m = JStr ''quota exceeded''"
    by (simp_all add: getProp_def)
  with thrown have h: "handlePayload sampleParse failedJson
       = Throw (PerplexityStreamError (JStr ''quota exceeded'') (Some (JStr ''E1'')))"
    by simp
  have s: "parseEventStream sampleParse [[''{}'', ''not json''], [failedJson, ''{\"text\":\"hi\"}'']]
       = ([JObj []], Some (PerplexityStreamError (JStr ''quota exceeded'') (Some (JStr ''E1''))))"
    by code_simp
  from iff [of "''not json''"] n have k: "handlePayload sampleParse ''not json'' = Skip"
    by blast
  from d ne p h s n k show ?thesis by blast
qed

text \<open>
  With "a present \<^verbatim>\<open>error_code\<close>" the claim fails: the payload \<^verbatim>\<open>{"error_code": ""}\<close> has the
  field, parses, and is yielded as an ordinary item.
\<close>

theorem present_error_code_not_raised:
  "trim ''{\"error_code\":\"\"}'' \<noteq> []
   \<and> sampleParse (trim ''{\"error_code\":\"\"}'') = Some (JObj [(''error_code'', JStr [])])
   \<and> getProp (asObject (Some (JObj [(''error_code'', JStr [])]))) ''error_code'' = Some (JStr [])
   \<and> parseEventStream sampleParse [[''{\"error_code\":\"\"}'']] = ([JObj [(''error_code'', JStr [])]], None)"
  by code_simp

end
